theory Spec2Isabelle
  imports Main "HOL-Library.Sublist"
begin

section \<open>Errors\<close>

text \<open>
  Go errors as values. \<open>Opaque\<close> is an error handed back by a collaborator (the API
  client, the vSphere session, a VM service), \<open>NotFound\<close> the API server's status error
  that \<open>apierrors.IsNotFound\<close> recognises; \<open>Wrapf e msg\<close> is
  \<^verbatim>\<open>errors.Wrapf(e, msg)\<close>; the other constructors are the errors the code under
  study creates itself with \<^verbatim>\<open>errors.Errorf\<close> or \<^verbatim>\<open>errors.New\<close>.
\<close>

datatype error =
    Opaque string
  | NotFound string
  | Wrapf error string
  | InvalidNetworkCount nat nat
  | InvalidBiosUUID string
  | UnknownTaskState string
  | ErrParsingCIDR
  | ErrNoMachineIPAddr
  | NotObjectMetaAccessor

section \<open>Provider ID codec (package util)\<close>

subsection \<open>The two patterns, as Go's regexp package reads them\<close>

text \<open>
  Both patterns are anchored sequences of single-rune matchers, without alternation or
  repetition of unknown length. A matcher is modelled by the list of byte strings (the
  UTF-8 encodings of the runes) it accepts; Go strings are byte strings, and so is
  \<^typ>\<open>string\<close>. No encoding in one matcher is a prefix of another, so taking the first
  alternative that fits loses no match.
\<close>

type_synonym atom = "string list"

fun matchAtom :: "atom \<Rightarrow> string \<Rightarrow> string option" where
  "matchAtom [] s = None"
| "matchAtom (a # as) s = (if prefix a s then Some (drop (length a) s) else matchAtom as s)"

fun matchAtoms :: "atom list \<Rightarrow> string \<Rightarrow> string option" where
  "matchAtoms [] s = Some s"
| "matchAtoms (a # as) s = (case matchAtom a s of None \<Rightarrow> None | Some r \<Rightarrow> matchAtoms as r)"

text \<open>
  A literal character under the flag \<^verbatim>\<open>(?i)\<close> accepts every rune of its simple case
  folding orbit. For an ASCII letter that is the letter in both cases; the orbits of
  \<open>s\<close> and \<open>k\<close> also hold U+017F (bytes C5 BF) and U+212A (bytes E2 84 AA).
\<close>

definition lowers :: string where
  "lowers = ''abcdefghijklmnopqrstuvwxyz''"

definition uppers :: string where
  "uppers = ''ABCDEFGHIJKLMNOPQRSTUVWXYZ''"

definition isLower :: "char \<Rightarrow> bool" where
  "isLower c = (c \<in> set lowers)"

definition isUpper :: "char \<Rightarrow> bool" where
  "isUpper c = (c \<in> set uppers)"

definition toLower :: "char \<Rightarrow> char" where
  "toLower c = (case map_of (zip uppers lowers) c of None \<Rightarrow> c | Some l \<Rightarrow> l)"

definition toUpper :: "char \<Rightarrow> char" where
  "toUpper c = (case map_of (zip lowers uppers) c of None \<Rightarrow> c | Some u \<Rightarrow> u)"

definition foldChar :: "char \<Rightarrow> atom" where
  "foldChar c =
     (if isLower c \<or> isUpper c then
        [[toLower c], [toUpper c]] @
        (if toLower c = CHR ''s'' then [[CHR 0xC5, CHR 0xBF]]
         else if toLower c = CHR ''k'' then [[CHR 0xE2, CHR 0x84, CHR 0xAA]]
         else [])
      else [[c]])"

definition foldLiteral :: "string \<Rightarrow> atom list" where
  "foldLiteral s = map foldChar s"

text \<open>The class \<^verbatim>\<open>[a-f\d]\<close> under \<^verbatim>\<open>(?i)\<close>: a to f in both cases, and the ASCII digits.\<close>

definition hexClass :: atom where
  "hexClass = map (\<lambda>c. [c]) ''abcdefABCDEF0123456789''"

definition dash :: atom where
  "dash = [''-'']"

definition uuidAtoms :: "atom list" where
  "uuidAtoms =
     replicate 8 hexClass @ [dash] @ replicate 4 hexClass @ [dash] @
     replicate 4 hexClass @ [dash] @ replicate 4 hexClass @ [dash] @
     replicate 12 hexClass"

definition ProviderIDPrefix :: string where
  "ProviderIDPrefix = ''vsphere://''"

text \<open>
  \<open>ProviderIDPattern\<close>: the part before the capture group and the group itself.
  \<open>UUIDPattern\<close> has no group. The anchors \<^verbatim>\<open>^\<close> and \<^verbatim>\<open>$\<close> (without the flag m: the
  ends of the text) are in the two matching functions below.
\<close>

definition ProviderIDPattern :: "atom list \<times> atom list" where
  "ProviderIDPattern = (foldLiteral ProviderIDPrefix, uuidAtoms)"

definition UUIDPattern :: "atom list" where
  "UUIDPattern = uuidAtoms"

definition MatchString :: "atom list \<Rightarrow> string \<Rightarrow> bool" where
  "MatchString pat s = (matchAtoms pat s = Some [])"

text \<open>\<open>FindStringSubmatch\<close>: the whole match and the group's text; the nil slice when
  there is no match.\<close>

definition FindStringSubmatch :: "atom list \<times> atom list \<Rightarrow> string \<Rightarrow> string list" where
  "FindStringSubmatch pat s =
     (case matchAtoms (fst pat) s of
        None \<Rightarrow> []
      | Some r \<Rightarrow> if matchAtoms (snd pat) r = Some [] then [s, r] else [])"

subsection \<open>ConvertProviderIDToUUID and ConvertUUIDToProviderID\<close>

text \<open>The argument of \<open>ConvertProviderIDToUUID\<close> is a \<^verbatim>\<open>*string\<close>: \<open>None\<close> is nil.\<close>

definition ConvertProviderIDToUUID :: "string option \<Rightarrow> string" where
  "ConvertProviderIDToUUID providerID =
     (case providerID of
        None \<Rightarrow> []
      | Some p \<Rightarrow>
          if p = [] then []
          else (let matches = FindStringSubmatch ProviderIDPattern p
                in if length matches < 2 then [] else matches ! 1))"

definition ConvertUUIDToProviderID :: "string \<Rightarrow> string" where
  "ConvertUUIDToProviderID uuid =
     (if uuid = [] then []
      else if \<not> MatchString UUIDPattern uuid then []
      else ProviderIDPrefix @ uuid)"

subsection \<open>The shapes in the specification's words\<close>

text \<open>
  A UUID is 36 characters: groups of 8, 4, 4, 4 and 12 hexadecimal digits (either case),
  separated by dashes. A provider id is the scheme prefix, read case-insensitively,
  followed by a UUID.
\<close>

definition isHexDigit :: "char \<Rightarrow> bool" where
  "isHexDigit c = (c \<in> set ''0123456789abcdefABCDEF'')"

definition isUUID :: "string \<Rightarrow> bool" where
  "isUUID u =
     (length u = 36 \<and>
      list_all isHexDigit (take 8 u) \<and> u ! 8 = CHR ''-'' \<and>
      list_all isHexDigit (take 4 (drop 9 u)) \<and> u ! 13 = CHR ''-'' \<and>
      list_all isHexDigit (take 4 (drop 14 u)) \<and> u ! 18 = CHR ''-'' \<and>
      list_all isHexDigit (take 4 (drop 19 u)) \<and> u ! 23 = CHR ''-'' \<and>
      list_all isHexDigit (drop 24 u))"

definition isProviderID :: "string \<Rightarrow> bool" where
  "isProviderID p =
     (case matchAtoms (foldLiteral ProviderIDPrefix) p of
        None \<Rightarrow> False
      | Some u \<Rightarrow> isUUID u)"

section \<open>The resources\<close>

text \<open>
  The API types of package \<open>infrav1\<close> are declared outside the files under study. The
  records below hold the fields the code under study reads or writes, under the paths
  it uses (\<open>ctx.VSphereMachine.Spec.Network.Devices\<close>, \<open>ctx.VSphereMachine.Status.TaskRef\<close>,
  \<open>vm.Network\<close>, ...). A Go pointer that may be nil is an \<open>option\<close>.
\<close>

record NetworkDeviceSpec =
  Device_MACAddr :: string
  Device_Nameservers :: "string list"
  Device_SearchDomains :: "string list"

record NetworkSpec =
  Devices :: "NetworkDeviceSpec list"
  PreferredAPIServerCIDR :: string

record NetworkStatus =
  IPAddrs :: "string list"
  MACAddr :: string

text \<open>\<open>corev1.NodeAddress\<close>; its type is a string, \<open>NodeInternalIP\<close> one of its values.\<close>

record NodeAddress =
  Type :: string
  Address :: string

definition NodeInternalIP :: string where
  "NodeInternalIP = ''InternalIP''"

record VSphereMachineSpec =
  ProviderID :: "string option"
  Datacenter :: string
  Spec_Network :: NetworkSpec

record VSphereMachineStatus =
  Ready :: bool
  Addresses :: "NodeAddress list"
  TaskRef :: string
  Status_Network :: "NetworkStatus list"
  ErrorReason :: "string option"
  ErrorMessage :: "string option"

text \<open>A \<open>metav1.Time\<close> is counted from the zero time: \<open>0\<close> is the zero time itself.\<close>

type_synonym Time = nat

record VSphereMachine =
  Finalizers :: "string list"
  DeletionTimestamp :: "Time option"
  ResourceVersion :: string
  Spec :: VSphereMachineSpec
  Status :: VSphereMachineStatus

text \<open>
  Of the owning \<open>Cluster\<close> and \<open>Machine\<close> (Cluster API types) the controller reads one
  field each: \<open>Cluster.Status.InfrastructureReady\<close> and \<open>Machine.Spec.Bootstrap.Data\<close>.
\<close>

record Cluster =
  Status_InfrastructureReady :: bool

record Machine =
  Spec_Bootstrap_Data :: "string option"

text \<open>\<open>context.MachineContext\<close>, without the logger and the clients.\<close>

record MachineContext =
  Cluster :: Cluster
  Machine :: Machine
  VSphereMachine :: VSphereMachine

text \<open>The assignments to fields of \<open>ctx.VSphereMachine\<close>.\<close>

definition set_TaskRef :: "string \<Rightarrow> MachineContext \<Rightarrow> MachineContext" where
  "set_TaskRef t ctx =
     ctx\<lparr>VSphereMachine := (VSphereMachine ctx)\<lparr>Status :=
       (Status (VSphereMachine ctx))\<lparr>TaskRef := t\<rparr>\<rparr>\<rparr>"

definition set_Status_Network :: "NetworkStatus list \<Rightarrow> MachineContext \<Rightarrow> MachineContext" where
  "set_Status_Network n ctx =
     ctx\<lparr>VSphereMachine := (VSphereMachine ctx)\<lparr>Status :=
       (Status (VSphereMachine ctx))\<lparr>Status_Network := n\<rparr>\<rparr>\<rparr>"

definition set_Addresses :: "NodeAddress list \<Rightarrow> MachineContext \<Rightarrow> MachineContext" where
  "set_Addresses a ctx =
     ctx\<lparr>VSphereMachine := (VSphereMachine ctx)\<lparr>Status :=
       (Status (VSphereMachine ctx))\<lparr>Addresses := a\<rparr>\<rparr>\<rparr>"

definition set_Ready :: "bool \<Rightarrow> MachineContext \<Rightarrow> MachineContext" where
  "set_Ready b ctx =
     ctx\<lparr>VSphereMachine := (VSphereMachine ctx)\<lparr>Status :=
       (Status (VSphereMachine ctx))\<lparr>Ready := b\<rparr>\<rparr>\<rparr>"

definition set_ProviderID :: "string option \<Rightarrow> MachineContext \<Rightarrow> MachineContext" where
  "set_ProviderID p ctx =
     ctx\<lparr>VSphereMachine := (VSphereMachine ctx)\<lparr>Spec :=
       (Spec (VSphereMachine ctx))\<lparr>ProviderID := p\<rparr>\<rparr>\<rparr>"

definition set_Finalizers :: "string list \<Rightarrow> MachineContext \<Rightarrow> MachineContext" where
  "set_Finalizers f ctx = ctx\<lparr>VSphereMachine := (VSphereMachine ctx)\<lparr>Finalizers := f\<rparr>\<rparr>"

section \<open>In-flight tasks (package govmomi)\<close>

text \<open>
  \<open>mo.Task\<close>: the reference value and the two fields of \<open>Info\<close> the code reads.
  \<open>types.TaskInfoState\<close> is a string type of the vSphere API with four named values; a
  task object may carry any string.
\<close>

record Task =
  Reference_Value :: string
  Info_State :: string
  Info_DescriptionId :: string

definition TaskInfoStateQueued :: string where
  "TaskInfoStateQueued = ''queued''"

definition TaskInfoStateRunning :: string where
  "TaskInfoStateRunning = ''running''"

definition TaskInfoStateSuccess :: string where
  "TaskInfoStateSuccess = ''success''"

definition TaskInfoStateError :: string where
  "TaskInfoStateError = ''error''"

text \<open>
  \<open>ctx.Session.RetrieveOne\<close> for a managed object reference of type task: the session's
  answer, an error or the task object, as a function of the reference value.
\<close>

type_synonym Session = "string \<Rightarrow> error + Task"

definition getTask :: "Session \<Rightarrow> MachineContext \<Rightarrow> Task option" where
  "getTask session ctx =
     (if TaskRef (Status (VSphereMachine ctx)) = [] then None
      else (case session (TaskRef (Status (VSphereMachine ctx))) of
              Inl err \<Rightarrow> None
            | Inr obj \<Rightarrow> Some obj))"

text \<open>The result is \<open>(bool, error)\<close> and the context as the call leaves it.\<close>

definition reconcileInFlightTask ::
  "Session \<Rightarrow> MachineContext \<Rightarrow> (bool \<times> error option) \<times> MachineContext" where
  "reconcileInFlightTask session ctx =
     (case getTask session ctx of
        None \<Rightarrow> ((False, None), set_TaskRef [] ctx)
      | Some task \<Rightarrow>
          if Info_State task = TaskInfoStateQueued then ((True, None), ctx)
          else if Info_State task = TaskInfoStateRunning then ((True, None), ctx)
          else if Info_State task = TaskInfoStateSuccess then ((False, None), set_TaskRef [] ctx)
          else if Info_State task = TaskInfoStateError then ((False, None), set_TaskRef [] ctx)
          else ((False, Some (UnknownTaskState (Info_State task))), ctx))"

section \<open>The preferred IP address (package util)\<close>

text \<open>
  \<open>net.ParseCIDR\<close>, \<open>net.ParseIP\<close> and \<open>IPNet.Contains\<close> belong to Go's standard
  library. They are parameters: \<open>ParseCIDR\<close> gives an error or the network, \<open>ParseIP\<close>
  gives the address or nil (\<open>None\<close>), and \<open>IPNet_Contains\<close> answers for a network and what
  \<open>ParseIP\<close> returned.
\<close>

record ('n, 'ip) NetLib =
  ParseCIDR :: "string \<Rightarrow> error + 'n"
  ParseIP :: "string \<Rightarrow> 'ip option"
  IPNet_Contains :: "'n \<Rightarrow> 'ip option \<Rightarrow> bool"

text \<open>The loop over \<open>machine.Status.Addresses\<close>; \<open>cidr\<close> is \<open>None\<close> while it is nil.\<close>

fun preferredAddress :: "('n, 'ip) NetLib \<Rightarrow> 'n option \<Rightarrow> NodeAddress list \<Rightarrow> error + string" where
  "preferredAddress lib cidr [] = Inl ErrNoMachineIPAddr"
| "preferredAddress lib cidr (nodeAddr # rest) =
     (if Type nodeAddr \<noteq> NodeInternalIP then preferredAddress lib cidr rest
      else (case cidr of
              None \<Rightarrow> Inr (Address nodeAddr)
            | Some c \<Rightarrow>
                if IPNet_Contains lib c (ParseIP lib (Address nodeAddr)) then Inr (Address nodeAddr)
                else preferredAddress lib cidr rest))"

definition GetMachinePreferredIPAddress :: "('n, 'ip) NetLib \<Rightarrow> VSphereMachine \<Rightarrow> error + string" where
  "GetMachinePreferredIPAddress lib machine =
     (let cidrString = PreferredAPIServerCIDR (Spec_Network (Spec machine)) in
      if cidrString \<noteq> [] then
        (case ParseCIDR lib cidrString of
           Inl err \<Rightarrow> Inl ErrParsingCIDR
         | Inr c \<Rightarrow> preferredAddress lib (Some c) (Addresses (Status machine)))
      else preferredAddress lib None (Addresses (Status machine)))"

text \<open>
  In the claim's words: an entry qualifies when its type is \<open>NodeInternalIP\<close> and, if a
  CIDR was given and parsed, the entry's address lies inside it.
\<close>

definition qualifies :: "('n, 'ip) NetLib \<Rightarrow> 'n option \<Rightarrow> NodeAddress \<Rightarrow> bool" where
  "qualifies lib cidr a =
     (Type a = NodeInternalIP \<and>
      (case cidr of None \<Rightarrow> True | Some c \<Rightarrow> IPNet_Contains lib c (ParseIP lib (Address a))))"

definition preferredCIDR :: "('n, 'ip) NetLib \<Rightarrow> VSphereMachine \<Rightarrow> 'n option" where
  "preferredCIDR lib machine =
     (if PreferredAPIServerCIDR (Spec_Network (Spec machine)) = [] then None
      else (case ParseCIDR lib (PreferredAPIServerCIDR (Spec_Network (Spec machine))) of
              Inl err \<Rightarrow> None
            | Inr c \<Rightarrow> Some c))"

section \<open>Reconciling on completion (package govmomi)\<close>

text \<open>
  A \<open>runtime.Object\<close>: its group, version and kind, and its object metadata when its
  type is a \<open>metav1.ObjectMetaAccessor\<close> (\<open>None\<close> when the type assertion fails).
  Copying a value changes nothing, so \<open>DeepCopyObject\<close> is the identity.
\<close>

record ObjectMeta =
  Namespace :: string
  Name :: string

record RuntimeObject =
  GroupVersionKind :: string
  GetObjectMeta :: "ObjectMeta option"

record GenericEvent =
  Meta :: ObjectMeta
  Object :: RuntimeObject

datatype LogEntry =
    LogError error string
  | LogInfo string "string list"

text \<open>
  What the background function acts on: the event channels of the controller manager
  context, one per group, version and kind, each with the events sent into it so far,
  and the logger's output.
\<close>

record World =
  EventChannels :: "string \<Rightarrow> GenericEvent list"
  Logger :: "LogEntry list"

definition DeepCopyObject :: "RuntimeObject \<Rightarrow> RuntimeObject" where
  "DeepCopyObject obj = obj"

text \<open>
  The function started with \<open>go\<close>. \<open>waitFn\<close> blocks and then returns the logger's keys
  and values, or an error; the model takes what it returns, not how long it takes.
\<close>

definition waitAndTrigger ::
  "RuntimeObject \<Rightarrow> ObjectMeta \<Rightarrow> error + string list \<Rightarrow> World \<Rightarrow> World" where
  "waitAndTrigger obj objMeta waitFn w =
     (case waitFn of
        Inl err \<Rightarrow> w\<lparr>Logger := Logger w @ [LogError err ''failed to wait on func'']\<rparr>
      | Inr loggerKeysAndValues \<Rightarrow>
          (let w1 = w\<lparr>Logger := Logger w @ [LogInfo ''triggering GenericEvent'' loggerKeysAndValues]\<rparr>
           in w1\<lparr>EventChannels := (EventChannels w1)
                 (GroupVersionKind obj :=
                    EventChannels w1 (GroupVersionKind obj) @ [\<lparr>Meta = objMeta, Object = obj\<rparr>])\<rparr>))"

text \<open>The result: the returned error, and the background function if one was started.\<close>

definition reconcileObjectOnFuncCompletion ::
  "RuntimeObject \<Rightarrow> error + string list \<Rightarrow> error option \<times> (World \<Rightarrow> World) option" where
  "reconcileObjectOnFuncCompletion obj0 waitFn =
     (let obj = DeepCopyObject obj0
      in (case GetObjectMeta obj of
            None \<Rightarrow> (Some NotObjectMetaAccessor, None)
          | Some objMeta \<Rightarrow> (None, Some (waitAndTrigger obj objMeta waitFn))))"

text \<open>The world once the call has returned and the background function, if any, has run.\<close>

definition afterCompletion :: "RuntimeObject \<Rightarrow> error + string list \<Rightarrow> World \<Rightarrow> World" where
  "afterCompletion obj waitFn w =
     (case snd (reconcileObjectOnFuncCompletion obj waitFn) of
        None \<Rightarrow> w
      | Some background \<Rightarrow> background w)"

section \<open>The machine controller (package controllers)\<close>

subsection \<open>What the controller takes from outside\<close>

text \<open>
  Modelled from the spec: the state of the Provider Instance View (\<open>vm.State\<close>, declared
  in \<open>api/v1alpha2\<close> outside the files under study). The specification lists four
  states: not-found, pending, ready and error. The controller compares with
  \<open>VirtualMachineStateNotFound\<close> and \<open>VirtualMachineStateReady\<close> only.
\<close>

datatype VirtualMachineState =
    VirtualMachineStateNotFound
  | VirtualMachineStatePending
  | VirtualMachineStateReady
  | VirtualMachineStateError

text \<open>\<open>infrav1.VirtualMachine\<close>: the fields the controller reads.\<close>

record VirtualMachine =
  State :: VirtualMachineState
  BiosUUID :: string
  Network :: "NetworkStatus list"

text \<open>
  Modelled from the spec: the lifecycle finalizer \<open>infrav1.MachineFinalizer\<close>, a string
  constant declared in \<open>api/v1alpha2\<close> outside the files under study. No proof below
  depends on its value.
\<close>

definition MachineFinalizer :: string where
  "MachineFinalizer = ''vspheremachine.infrastructure.cluster.x-k8s.io''"

text \<open>
  \<open>services.VirtualMachineService\<close>. Its implementation talks to vSphere and is given
  the context by pointer: a call returns an error or the instance view, and the context
  as it leaves it.
\<close>

type_synonym VMServiceCall = "MachineContext \<Rightarrow> (error + VirtualMachine) \<times> MachineContext"

record VirtualMachineService =
  ReconcileVM :: VMServiceCall
  DestroyVM :: VMServiceCall

text \<open>\<open>Contains\<close> and \<open>Filter\<close> of the Cluster API's \<open>util\<close> package, as loops over the slice.\<close>

fun Contains :: "string list \<Rightarrow> string \<Rightarrow> bool" where
  "Contains [] strToSearch = False"
| "Contains (item # list) strToSearch =
     (if item = strToSearch then True else Contains list strToSearch)"

fun Filter :: "string list \<Rightarrow> string \<Rightarrow> string list" where
  "Filter [] strToFilter = []"
| "Filter (item # list) strToFilter =
     (if item \<noteq> strToFilter then item # Filter list strToFilter else Filter list strToFilter)"

definition IsNotFound :: "error \<Rightarrow> bool" where
  "IsNotFound err = (case err of NotFound _ \<Rightarrow> True | _ \<Rightarrow> False)"

definition IsZero :: "Time option \<Rightarrow> bool" where
  "IsZero t = (case t of None \<Rightarrow> True | Some n \<Rightarrow> n = 0)"

subsection \<open>reconcileDelete\<close>

text \<open>Every reconcile function returns \<open>reconcile.Result{}\<close>; the model keeps the error
  and the context.\<close>

definition reconcileDelete ::
  "VirtualMachineService \<Rightarrow> MachineContext \<Rightarrow> error option \<times> MachineContext" where
  "reconcileDelete vmService ctx =
     (case DestroyVM vmService ctx of
        (Inl err, ctx1) \<Rightarrow> (Some (Wrapf err ''failed to destroy VM''), ctx1)
      | (Inr vm, ctx1) \<Rightarrow>
          if State vm \<noteq> VirtualMachineStateNotFound then (None, ctx1)
          else (None, set_Finalizers (Filter (Finalizers (VSphereMachine ctx1)) MachineFinalizer) ctx1))"

subsection \<open>reconcileNetwork and reconcileProviderID\<close>

definition reconcileNetwork ::
  "MachineContext \<Rightarrow> VirtualMachine \<Rightarrow> (bool \<times> error option) \<times> MachineContext" where
  "reconcileNetwork ctx vm =
     (let expNetCount = length (Devices (Spec_Network (Spec (VSphereMachine ctx))));
          actNetCount = length (Network vm)
      in if expNetCount \<noteq> actNetCount
         then ((False, Some (InvalidNetworkCount expNetCount actNetCount)), ctx)
         else (let ctx1 = set_Status_Network (Network vm) ctx;
                   ipAddrs = concat (map (\<lambda>netStatus.
                               map (\<lambda>ip. \<lparr>Type = NodeInternalIP, Address = ip\<rparr>) (IPAddrs netStatus))
                               (Status_Network (Status (VSphereMachine ctx1))))
               in if length ipAddrs = 0 then ((False, None), ctx1)
                  else ((True, None), set_Addresses ipAddrs ctx1)))"

definition reconcileProviderID ::
  "MachineContext \<Rightarrow> VirtualMachine \<Rightarrow> error option \<times> MachineContext" where
  "reconcileProviderID ctx vm =
     (let providerID = ConvertUUIDToProviderID (BiosUUID vm)
      in if providerID = [] then (Some (InvalidBiosUUID (BiosUUID vm)), ctx)
         else (case ProviderID (Spec (VSphereMachine ctx)) of
                 None \<Rightarrow> (None, set_ProviderID (Some providerID) ctx)
               | Some p \<Rightarrow>
                   if p \<noteq> providerID then (None, set_ProviderID (Some providerID) ctx)
                   else (None, ctx)))"

subsection \<open>reconcileNormal\<close>

text \<open>The step that adds the finalizer, named so that statements can speak of the
  context that \<open>ReconcileVM\<close> is given.\<close>

definition ensureFinalizer :: "MachineContext \<Rightarrow> MachineContext" where
  "ensureFinalizer ctx =
     (if \<not> Contains (Finalizers (VSphereMachine ctx)) MachineFinalizer
      then set_Finalizers (Finalizers (VSphereMachine ctx) @ [MachineFinalizer]) ctx
      else ctx)"

definition reconcileNormal ::
  "VirtualMachineService \<Rightarrow> MachineContext \<Rightarrow> error option \<times> MachineContext" where
  "reconcileNormal vmService ctx =
     (if ErrorReason (Status (VSphereMachine ctx)) \<noteq> None \<or>
         ErrorMessage (Status (VSphereMachine ctx)) \<noteq> None
      then (None, ctx)
      else
        (let ctx1 = ensureFinalizer ctx
         in if \<not> Status_InfrastructureReady (Cluster ctx1) then (None, ctx1)
            else if Spec_Bootstrap_Data (Machine ctx1) = None then (None, ctx1)
            else
              (case ReconcileVM vmService ctx1 of
                 (Inl err, ctx2) \<Rightarrow> (Some (Wrapf err ''failed to reconcile VM''), ctx2)
               | (Inr vm, ctx2) \<Rightarrow>
                   if State vm \<noteq> VirtualMachineStateReady then (None, ctx2)
                   else
                     (case reconcileNetwork ctx2 vm of
                        ((ok, err), ctx3) \<Rightarrow>
                          if \<not> ok then
                            (case err of
                               Some e \<Rightarrow> (Some e, ctx3)
                             | None \<Rightarrow> (None, ctx3))
                          else
                            (case reconcileProviderID ctx3 vm of
                               (Some e, ctx4) \<Rightarrow> (Some e, ctx4)
                             | (None, ctx4) \<Rightarrow> (None, set_Ready True ctx4))))))"

subsection \<open>Reconcile\<close>

text \<open>
  What one call of \<open>Reconcile\<close> gets from its collaborators: the answers of the API
  client to the reads at entry, of the session cache and of the patch helper's
  constructor; the outcome of \<open>machineContext.Patch()\<close> for the object it is given (an
  error or nil, and the object as the call leaves it); the answer to the \<open>n\<close>-th read of
  the loop at exit; and the VM service.
\<close>

record ReconcileEnv =
  Get_VSphereMachine :: "error + VSphereMachine"
  GetOwnerMachine :: "error + Machine option"
  GetClusterFromMetadata :: "error + Cluster"
  Get_VSphereCluster :: "error option"
  session_GetOrCreate :: "error option"
  patch_NewHelper :: "error option"
  Patch :: "VSphereMachine \<Rightarrow> error option \<times> VSphereMachine"
  Get_remote :: "nat \<Rightarrow> error + VSphereMachine"
  vmService :: VirtualMachineService

text \<open>
  What the caller and the store see of one call: the returned error, the objects
  handed to \<open>Patch\<close> in order, and the number of reads the exit loop made.
\<close>

record ReconcileOutcome =
  reterr :: "error option"
  patched :: "VSphereMachine list"
  polls :: nat

text \<open>
  The loop at the end of the deferred function reads the resource until the read
  reports not-found or shows a resource version other than the local one. Nothing
  bounds it: \<open>None\<close> is the loop that never ends. The result counts the reads.
\<close>

partial_function (option) waitForRemote ::
  "(nat \<Rightarrow> error + VSphereMachine) \<Rightarrow> VSphereMachine \<Rightarrow> nat \<Rightarrow> nat option" where
  "waitForRemote get localObj n =
     (case get n of
        Inl err \<Rightarrow> if IsNotFound err then Some (Suc n) else waitForRemote get localObj (Suc n)
      | Inr remoteObj \<Rightarrow>
          if ResourceVersion localObj \<noteq> ResourceVersion remoteObj then Some (Suc n)
          else waitForRemote get localObj (Suc n))"

text \<open>The deferred function: \<open>bodyErr\<close> is \<open>reterr\<close> as the body's return set it.\<close>

definition patchOnExit ::
  "ReconcileEnv \<Rightarrow> error option \<Rightarrow> MachineContext \<Rightarrow> ReconcileOutcome option" where
  "patchOnExit env bodyErr machineContext =
     (case Patch env (VSphereMachine machineContext) of
        (patchErr, obj) \<Rightarrow>
          (let reterr1 = (case patchErr of
                            None \<Rightarrow> bodyErr
                          | Some err \<Rightarrow> if bodyErr = None then Some err else bodyErr)
           in (case waitForRemote (Get_remote env) obj 0 of
                 None \<Rightarrow> None
               | Some n \<Rightarrow>
                   Some \<lparr>reterr = reterr1, patched = [VSphereMachine machineContext], polls = n\<rparr>)))"

definition returns :: "error option \<Rightarrow> ReconcileOutcome option" where
  "returns err = Some \<lparr>reterr = err, patched = [], polls = 0\<rparr>"

definition reconcileBody ::
  "VirtualMachineService \<Rightarrow> MachineContext \<Rightarrow> error option \<times> MachineContext" where
  "reconcileBody svc machineContext =
     (if \<not> IsZero (DeletionTimestamp (VSphereMachine machineContext))
      then reconcileDelete svc machineContext
      else reconcileNormal svc machineContext)"

definition Reconcile :: "ReconcileEnv \<Rightarrow> ReconcileOutcome option" where
  "Reconcile env =
     (case Get_VSphereMachine env of
        Inl err \<Rightarrow> if IsNotFound err then returns None else returns (Some err)
      | Inr vsphereMachine \<Rightarrow>
     (case GetOwnerMachine env of
        Inl err \<Rightarrow> returns (Some err)
      | Inr None \<Rightarrow> returns None
      | Inr (Some machine) \<Rightarrow>
     (case GetClusterFromMetadata env of
        Inl err \<Rightarrow> returns None
      | Inr cluster \<Rightarrow>
     (case Get_VSphereCluster env of
        Some err \<Rightarrow> returns None
      | None \<Rightarrow>
     (case session_GetOrCreate env of
        Some err \<Rightarrow> returns (Some (Wrapf err ''failed to create vSphere session''))
      | None \<Rightarrow>
     (case patch_NewHelper env of
        Some err \<Rightarrow> returns (Some (Wrapf err ''failed to init patch helper''))
      | None \<Rightarrow>
          (let machineContext =
                 \<lparr>Cluster = cluster, Machine = machine, VSphereMachine = vsphereMachine\<rparr>
           in (case reconcileBody (vmService env) machineContext of
                 (bodyErr, machineContext1) \<Rightarrow> patchOnExit env bodyErr machineContext1))))))))"

subsection \<open>Notions used in the statements\<close>

text \<open>The \<open>k\<close>-th read of the exit loop ends it: not-found, or another resource version.\<close>

definition settles :: "(nat \<Rightarrow> error + VSphereMachine) \<Rightarrow> VSphereMachine \<Rightarrow> nat \<Rightarrow> bool" where
  "settles get localObj k =
     (case get k of
        Inl err \<Rightarrow> IsNotFound err
      | Inr remoteObj \<Rightarrow> ResourceVersion localObj \<noteq> ResourceVersion remoteObj)"

text \<open>The Spec of the context's resource, with the provider id blanked.\<close>

definition specBesidesProviderID :: "MachineContext \<Rightarrow> VSphereMachineSpec" where
  "specBesidesProviderID ctx = (Spec (VSphereMachine ctx))\<lparr>ProviderID := None\<rparr>"

section \<open>Example inputs\<close>

text \<open>Concrete resources and collaborators, used to run the definitions.\<close>

definition example_uuid :: string where
  "example_uuid = ''4210A0b1-c2d3-e4f5-a6b7-0123456789ab''"

definition example_device :: NetworkDeviceSpec where
  "example_device =
     \<lparr>Device_MACAddr = ''00:50:56:aa:bb:cc'', Device_Nameservers = [], Device_SearchDomains = []\<rparr>"

definition example_machine :: VSphereMachine where
  "example_machine =
     \<lparr>Finalizers = [MachineFinalizer],
      DeletionTimestamp = None,
      ResourceVersion = ''41'',
      Spec = \<lparr>ProviderID = None, Datacenter = ''dc0'',
               Spec_Network = \<lparr>Devices = [example_device, example_device],
                                PreferredAPIServerCIDR = []\<rparr>\<rparr>,
      Status = \<lparr>Ready = False, Addresses = [], TaskRef = ''task-42'', Status_Network = [],
                 ErrorReason = None, ErrorMessage = None\<rparr>\<rparr>"

definition example_ctx :: MachineContext where
  "example_ctx =
     \<lparr>Cluster = \<lparr>Status_InfrastructureReady = True\<rparr>,
      Machine = \<lparr>Spec_Bootstrap_Data = Some ''bootstrap''\<rparr>,
      VSphereMachine = example_machine\<rparr>"

definition example_task :: "string \<Rightarrow> Task" where
  "example_task st =
     \<lparr>Reference_Value = ''task-42'', Info_State = st, Info_DescriptionId = ''VirtualMachine.clone''\<rparr>"

definition session_with :: "string \<Rightarrow> Session" where
  "session_with st = (\<lambda>ref. if ref = ''task-42'' then Inr (example_task st)
                             else Inl (Opaque ''not found''))"

definition session_failing :: Session where
  "session_failing = (\<lambda>ref. Inl (Opaque ''connection refused''))"

text \<open>
  A stand-in for the \<open>net\<close> package, enough to run the search: one network is known, it is
  named by the leading text of its addresses, and every string is taken for an address.
\<close>

definition example_net :: "(string, string) NetLib" where
  "example_net =
     \<lparr>ParseCIDR = (\<lambda>s. if s = ''10.0.0.0/8'' then Inr ''10.'' else Inl (Opaque ''invalid CIDR address'')),
      ParseIP = (\<lambda>s. Some s),
      IPNet_Contains = (\<lambda>n ip. case ip of None \<Rightarrow> False | Some a \<Rightarrow> prefix n a)\<rparr>"

definition example_addresses :: "NodeAddress list" where
  "example_addresses =
     [\<lparr>Type = ''ExternalIP'', Address = ''10.0.0.1''\<rparr>,
      \<lparr>Type = NodeInternalIP, Address = ''192.168.0.5''\<rparr>,
      \<lparr>Type = NodeInternalIP, Address = ''10.0.0.7''\<rparr>,
      \<lparr>Type = NodeInternalIP, Address = ''10.0.0.9''\<rparr>]"

definition machine_with_cidr :: "string \<Rightarrow> VSphereMachine" where
  "machine_with_cidr cidr =
     example_machine
       \<lparr>Spec := (Spec example_machine)
          \<lparr>Spec_Network := \<lparr>Devices = [example_device, example_device],
                            PreferredAPIServerCIDR = cidr\<rparr>\<rparr>,
        Status := (Status example_machine)\<lparr>Addresses := example_addresses\<rparr>\<rparr>"

text \<open>
  An instance view with the given state and interfaces, and a VM service that returns
  it from both calls and, as a write of its own, clears the task reference.
\<close>

definition example_vm :: "VirtualMachineState \<Rightarrow> NetworkStatus list \<Rightarrow> VirtualMachine" where
  "example_vm st nics = \<lparr>State = st, BiosUUID = example_uuid, Network = nics\<rparr>"

definition nic :: "string list \<Rightarrow> NetworkStatus" where
  "nic ips = \<lparr>IPAddrs = ips, MACAddr = ''00:50:56:aa:bb:cc''\<rparr>"

definition service_returning :: "VirtualMachine \<Rightarrow> VirtualMachineService" where
  "service_returning vm =
     \<lparr>ReconcileVM = (\<lambda>ctx. (Inr vm, set_TaskRef [] ctx)),
      DestroyVM = (\<lambda>ctx. (Inr vm, set_TaskRef [] ctx))\<rparr>"

text \<open>
  One call of \<open>Reconcile\<close>: every read at entry succeeds, the patch fails with a
  conflict, and the third read of the exit loop shows a new resource version.
\<close>

definition example_env :: "VirtualMachine \<Rightarrow> ReconcileEnv" where
  "example_env vm =
     \<lparr>Get_VSphereMachine = Inr example_machine,
      GetOwnerMachine = Inr (Some (Machine example_ctx)),
      GetClusterFromMetadata = Inr (Cluster example_ctx),
      Get_VSphereCluster = None,
      session_GetOrCreate = None,
      patch_NewHelper = None,
      Patch = (\<lambda>obj. (Some (Opaque ''conflict''), obj)),
      Get_remote = (\<lambda>n. if n < 2 then Inr example_machine
                          else Inr (example_machine\<lparr>ResourceVersion := ''42''\<rparr>)),
      vmService = service_returning vm\<rparr>"

definition example_obj :: RuntimeObject where
  "example_obj =
     \<lparr>GroupVersionKind = ''infrastructure.cluster.x-k8s.io/v1alpha2, Kind=VSphereMachine'',
      GetObjectMeta = Some \<lparr>Namespace = ''default'', Name = ''machine-0''\<rparr>\<rparr>"

definition example_world :: World where
  "example_world = \<lparr>EventChannels = (\<lambda>gvk. []), Logger = []\<rparr>"

section \<open>Properties of the provider ID codec\<close>

subsection \<open>What the matchers accept\<close>

lemma matchAtom_hexClass:
  "matchAtom hexClass s =
     (case s of [] \<Rightarrow> None | c # r \<Rightarrow> if isHexDigit c then Some r else None)"
  by (cases s) (auto simp: hexClass_def isHexDigit_def)

lemma matchAtom_dash:
  "matchAtom dash s =
     (case s of [] \<Rightarrow> None | c # r \<Rightarrow> if c = CHR ''-'' then Some r else None)"
  by (cases s) (auto simp: dash_def)

lemma matchAtoms_hexes:
  "matchAtoms (replicate n hexClass @ rest) s =
     (if n \<le> length s \<and> list_all isHexDigit (take n s)
      then matchAtoms rest (drop n s) else None)"
proof (induction n arbitrary: s)
  case 0
  then show ?case by simp
next
  case (Suc n)
  show ?case
  proof (cases s)
    case Nil
    then show ?thesis by (simp add: matchAtom_hexClass)
  next
    case (Cons c r)
    then show ?thesis using Suc.IH [of r] by (simp add: matchAtom_hexClass)
  qed
qed

lemma matchAtoms_dash:
  "matchAtoms (dash # rest) s =
     (if 0 < length s \<and> s ! 0 = CHR ''-'' then matchAtoms rest (drop 1 s) else None)"
  by (cases s) (simp_all add: matchAtom_dash)

lemma matchAtoms_hexes_end:
  "matchAtoms (replicate n hexClass) s =
     (if n \<le> length s \<and> list_all isHexDigit (take n s) then Some (drop n s) else None)"
  using matchAtoms_hexes [of n "[]" s] by simp

lemma MatchString_UUIDPattern: "MatchString UUIDPattern u = isUUID u"
  unfolding MatchString_def UUIDPattern_def uuidAtoms_def isUUID_def
  apply (simp only: matchAtoms_hexes matchAtoms_dash matchAtoms_hexes_end append_Cons append_Nil)
  apply (auto simp: min_def split: if_splits)
  done

lemma matchAtoms_uuidAtoms: "(matchAtoms uuidAtoms u = Some []) = isUUID u"
  using MatchString_UUIDPattern [of u] by (simp add: MatchString_def UUIDPattern_def)

lemma isUUID_nonempty: "isUUID u \<Longrightarrow> u \<noteq> []"
  by (auto simp: isUUID_def)

lemma matchAtoms_prefix_self:
  "matchAtoms (foldLiteral ProviderIDPrefix) (ProviderIDPrefix @ u) = Some u"
  by (simp add: foldLiteral_def ProviderIDPrefix_def foldChar_def isLower_def isUpper_def
        toLower_def toUpper_def lowers_def uppers_def)

lemma matchAtoms_prefix_Nil: "matchAtoms (foldLiteral ProviderIDPrefix) [] = None"
  by (simp add: foldLiteral_def ProviderIDPrefix_def foldChar_def isLower_def isUpper_def
        toLower_def toUpper_def lowers_def uppers_def)

lemma ConvertUUIDToProviderID_eq:
  "ConvertUUIDToProviderID u = (if isUUID u then ProviderIDPrefix @ u else [])"
  by (auto simp: ConvertUUIDToProviderID_def MatchString_UUIDPattern isUUID_nonempty)

lemma ConvertProviderIDToUUID_eq:
  "ConvertProviderIDToUUID (Some p) =
     (case matchAtoms (foldLiteral ProviderIDPrefix) p of
        None \<Rightarrow> []
      | Some u \<Rightarrow> if isUUID u then u else [])"
proof (cases "p = []")
  case True
  then show ?thesis
    by (simp add: ConvertProviderIDToUUID_def matchAtoms_prefix_Nil)
next
  case False
  then show ?thesis
    by (simp add: ConvertProviderIDToUUID_def FindStringSubmatch_def ProviderIDPattern_def
          matchAtoms_uuidAtoms split: option.splits)
qed

lemma ConvertProviderIDToUUID_shape:
  "isProviderID p \<Longrightarrow> isUUID (ConvertProviderIDToUUID (Some p))"
  by (auto simp: ConvertProviderIDToUUID_eq isProviderID_def split: option.splits)

text \<open>
  C3. For every valid UUID string \<open>u\<close>, decoding the encoded provider id gives \<open>u\<close> back;
  \<open>ConvertUUIDToProviderID\<close> returns the empty string for every input that is not a UUID,
  and \<open>ConvertProviderIDToUUID\<close> returns the empty string for nil and for every input that
  is not the prefix followed by a UUID.
\<close>

theorem provider_id_roundtrip:
  "(isUUID u \<longrightarrow> ConvertProviderIDToUUID (Some (ConvertUUIDToProviderID u)) = u) \<and>
   (\<not> isUUID x \<longrightarrow> ConvertUUIDToProviderID x = []) \<and>
   (\<not> isProviderID y \<longrightarrow> ConvertProviderIDToUUID (Some y) = []) \<and>
   ConvertProviderIDToUUID None = []"
proof -
  have "ConvertProviderIDToUUID (Some (ConvertUUIDToProviderID u)) = u" if "isUUID u"
    using that by (simp add: ConvertUUIDToProviderID_eq ConvertProviderIDToUUID_eq
        matchAtoms_prefix_self)
  moreover have "ConvertUUIDToProviderID x = []" if "\<not> isUUID x"
    using that by (simp add: ConvertUUIDToProviderID_eq)
  moreover have "ConvertProviderIDToUUID (Some y) = []" if "\<not> isProviderID y"
    using that by (auto simp: ConvertProviderIDToUUID_eq isProviderID_def split: option.splits)
  moreover have "ConvertProviderIDToUUID None = []"
    by (simp add: ConvertProviderIDToUUID_def)
  ultimately show ?thesis by blast
qed

lemma isUUID_example: "isUUID ''4210A0b1-c2d3-e4f5-a6b7-0123456789ab''"
  by (simp add: isUUID_def isHexDigit_def)

lemma not_isUUID_example: "\<not> isUUID ''4210a0b1-c2d3-e4f5-a6b7-0123456789ag''"
  by (simp add: isUUID_def isHexDigit_def)

lemma not_isProviderID_example: "\<not> isProviderID ''vsphere:/4210a0b1-c2d3-e4f5-a6b7-0123456789ab''"
  by (simp add: isProviderID_def foldLiteral_def ProviderIDPrefix_def foldChar_def isLower_def
        isUpper_def toLower_def toUpper_def lowers_def uppers_def)

theorem provider_id_roundtrip_witness:
  "isUUID ''4210A0b1-c2d3-e4f5-a6b7-0123456789ab'' \<and>
   ConvertProviderIDToUUID (Some (ConvertUUIDToProviderID ''4210A0b1-c2d3-e4f5-a6b7-0123456789ab''))
     = ''4210A0b1-c2d3-e4f5-a6b7-0123456789ab'' \<and>
   \<not> isUUID ''4210a0b1-c2d3-e4f5-a6b7-0123456789ag'' \<and>
   ConvertUUIDToProviderID ''4210a0b1-c2d3-e4f5-a6b7-0123456789ag'' = [] \<and>
   \<not> isProviderID ''vsphere:/4210a0b1-c2d3-e4f5-a6b7-0123456789ab'' \<and>
   ConvertProviderIDToUUID (Some ''vsphere:/4210a0b1-c2d3-e4f5-a6b7-0123456789ab'') = []"
  using provider_id_roundtrip [of "''4210A0b1-c2d3-e4f5-a6b7-0123456789ab''"
      "''4210a0b1-c2d3-e4f5-a6b7-0123456789ag''"
      "''vsphere:/4210a0b1-c2d3-e4f5-a6b7-0123456789ab''"]
    isUUID_example not_isUUID_example not_isProviderID_example
  by blast

section \<open>Properties of the task tracker\<close>

lemma reconcileInFlightTask_running:
  assumes "TaskRef (Status (VSphereMachine ctx)) \<noteq> []"
    and "session (TaskRef (Status (VSphereMachine ctx))) = Inr task"
    and "Info_State task = TaskInfoStateQueued \<or> Info_State task = TaskInfoStateRunning"
  shows "reconcileInFlightTask session ctx = ((True, None), ctx)"
  using assms by (auto simp: reconcileInFlightTask_def getTask_def)

lemma reconcileInFlightTask_done:
  assumes "TaskRef (Status (VSphereMachine ctx)) \<noteq> []"
    and "session (TaskRef (Status (VSphereMachine ctx))) = Inr task"
    and "Info_State task = TaskInfoStateSuccess \<or> Info_State task = TaskInfoStateError"
  shows "reconcileInFlightTask session ctx = ((False, None), set_TaskRef [] ctx)"
  using assms
  by (auto simp: reconcileInFlightTask_def getTask_def TaskInfoStateSuccess_def
      TaskInfoStateError_def TaskInfoStateQueued_def TaskInfoStateRunning_def)

lemma reconcileInFlightTask_missing:
  assumes "TaskRef (Status (VSphereMachine ctx)) \<noteq> []"
    and "session (TaskRef (Status (VSphereMachine ctx))) = Inl err"
  shows "reconcileInFlightTask session ctx = ((False, None), set_TaskRef [] ctx)"
  using assms by (simp add: reconcileInFlightTask_def getTask_def)

lemma TaskRef_set_TaskRef [simp]: "TaskRef (Status (VSphereMachine (set_TaskRef t ctx))) = t"
  by (simp add: set_TaskRef_def)

text \<open>
  C2. The resource holds a task reference. If the provider reports the task as queued or
  running, \<open>reconcileInFlightTask\<close> returns still-running without an error and leaves the
  context, and so the task reference, as it was. If the provider reports success or
  error, or the query fails, it returns not-running without an error, and the task
  reference is empty afterwards and nothing else has changed.
\<close>

theorem reconcileInFlightTask_task_states:
  assumes "TaskRef (Status (VSphereMachine ctx)) \<noteq> []"
  shows "(session (TaskRef (Status (VSphereMachine ctx))) = Inr task \<and>
          (Info_State task = TaskInfoStateQueued \<or> Info_State task = TaskInfoStateRunning)
          \<longrightarrow> reconcileInFlightTask session ctx = ((True, None), ctx)) \<and>
         ((session (TaskRef (Status (VSphereMachine ctx))) = Inr task \<and>
           (Info_State task = TaskInfoStateSuccess \<or> Info_State task = TaskInfoStateError)) \<or>
          session (TaskRef (Status (VSphereMachine ctx))) = Inl err
          \<longrightarrow> reconcileInFlightTask session ctx = ((False, None), set_TaskRef [] ctx) \<and>
              TaskRef (Status (VSphereMachine (snd (reconcileInFlightTask session ctx)))) = [])"
  using assms reconcileInFlightTask_running [of ctx session task]
    reconcileInFlightTask_done [of ctx session task]
    reconcileInFlightTask_missing [of ctx session err]
  by (auto simp del: One_nat_def)

lemmas example_defs = example_ctx_def example_machine_def example_task_def session_with_def
  session_failing_def example_device_def

theorem reconcileInFlightTask_task_states_witness:
  "reconcileInFlightTask (session_with ''running'') example_ctx = ((True, None), example_ctx) \<and>
   reconcileInFlightTask (session_with ''queued'') example_ctx = ((True, None), example_ctx) \<and>
   reconcileInFlightTask (session_with ''success'') example_ctx =
     ((False, None), set_TaskRef [] example_ctx) \<and>
   reconcileInFlightTask (session_with ''error'') example_ctx =
     ((False, None), set_TaskRef [] example_ctx) \<and>
   reconcileInFlightTask session_failing example_ctx = ((False, None), set_TaskRef [] example_ctx) \<and>
   TaskRef (Status (VSphereMachine (snd (reconcileInFlightTask session_failing example_ctx)))) = []"
proof -
  have h1: "TaskRef (Status (VSphereMachine example_ctx)) \<noteq> []"
    by (simp add: example_defs)
  have s: "\<And>st. session_with st (TaskRef (Status (VSphereMachine example_ctx))) = Inr (example_task st)"
    "session_failing (TaskRef (Status (VSphereMachine example_ctx))) = Inl (Opaque ''connection refused'')"
    "\<And>st. Info_State (example_task st) = st"
    by (simp_all add: example_defs)
  note c = TaskInfoStateQueued_def TaskInfoStateRunning_def TaskInfoStateSuccess_def
    TaskInfoStateError_def
  show ?thesis
    using reconcileInFlightTask_task_states [OF h1, of "session_with ''running''" "example_task ''running''"]
      reconcileInFlightTask_task_states [OF h1, of "session_with ''queued''" "example_task ''queued''"]
      reconcileInFlightTask_task_states [OF h1, of "session_with ''success''" "example_task ''success''"]
      reconcileInFlightTask_task_states [OF h1, of "session_with ''error''" "example_task ''error''"]
      reconcileInFlightTask_task_states [OF h1, of session_failing _ "Opaque ''connection refused''"]
    by (simp add: s c)
qed

text \<open>
  C9. The resource holds a task reference and the provider returns the task in a state
  other than queued, running, success and error. Then \<open>reconcileInFlightTask\<close> returns
  the unknown-task-state error for that state, and the context, with its task
  reference, is as it was.
\<close>

theorem reconcileInFlightTask_unknown_state:
  assumes "TaskRef (Status (VSphereMachine ctx)) \<noteq> []"
    and "session (TaskRef (Status (VSphereMachine ctx))) = Inr task"
    and "Info_State task \<noteq> TaskInfoStateQueued" and "Info_State task \<noteq> TaskInfoStateRunning"
    and "Info_State task \<noteq> TaskInfoStateSuccess" and "Info_State task \<noteq> TaskInfoStateError"
  shows "reconcileInFlightTask session ctx = ((False, Some (UnknownTaskState (Info_State task))), ctx)"
  using assms by (simp add: reconcileInFlightTask_def getTask_def)


theorem reconcileInFlightTask_unknown_state_witness:
  "reconcileInFlightTask (session_with ''cancelled'') example_ctx =
     ((False, Some (UnknownTaskState ''cancelled'')), example_ctx) \<and>
   TaskRef (Status (VSphereMachine (snd (reconcileInFlightTask (session_with ''cancelled'') example_ctx))))
     = ''task-42''"
proof -
  have h1: "TaskRef (Status (VSphereMachine example_ctx)) \<noteq> []"
    by (simp add: example_defs)
  have h2: "session_with ''cancelled'' (TaskRef (Status (VSphereMachine example_ctx))) =
              Inr (example_task ''cancelled'')"
    by (simp add: example_defs)
  have h3: "Info_State (example_task ''cancelled'') \<noteq> TaskInfoStateQueued"
    "Info_State (example_task ''cancelled'') \<noteq> TaskInfoStateRunning"
    "Info_State (example_task ''cancelled'') \<noteq> TaskInfoStateSuccess"
    "Info_State (example_task ''cancelled'') \<noteq> TaskInfoStateError"
    by (simp_all add: example_defs TaskInfoStateQueued_def TaskInfoStateRunning_def
        TaskInfoStateSuccess_def TaskInfoStateError_def)
  have "reconcileInFlightTask (session_with ''cancelled'') example_ctx =
     ((False, Some (UnknownTaskState (Info_State (example_task ''cancelled'')))), example_ctx)"
    by (rule reconcileInFlightTask_unknown_state
        [of example_ctx "session_with ''cancelled''" "example_task ''cancelled''", OF h1 h2 h3])
  then show ?thesis by (simp add: example_defs)
qed

section \<open>Properties of the preferred IP address\<close>

lemma preferredAddress_find:
  "preferredAddress lib cidr addrs =
     (case find (qualifies lib cidr) addrs of
        None \<Rightarrow> Inl ErrNoMachineIPAddr
      | Some a \<Rightarrow> Inr (Address a))"
  by (induction addrs) (auto simp: qualifies_def split: option.splits)

lemma GetMachinePreferredIPAddress_parse_error:
  assumes "PreferredAPIServerCIDR (Spec_Network (Spec machine)) \<noteq> []"
    and "ParseCIDR lib (PreferredAPIServerCIDR (Spec_Network (Spec machine))) = Inl e"
  shows "GetMachinePreferredIPAddress lib machine = Inl ErrParsingCIDR"
  using assms by (simp add: GetMachinePreferredIPAddress_def)

lemma GetMachinePreferredIPAddress_find:
  assumes "PreferredAPIServerCIDR (Spec_Network (Spec machine)) = [] \<or>
           \<not> isl (ParseCIDR lib (PreferredAPIServerCIDR (Spec_Network (Spec machine))))"
  shows "GetMachinePreferredIPAddress lib machine =
     (case find (qualifies lib (preferredCIDR lib machine)) (Addresses (Status machine)) of
        None \<Rightarrow> Inl ErrNoMachineIPAddr
      | Some a \<Rightarrow> Inr (Address a))"
  using assms
  by (auto simp: GetMachinePreferredIPAddress_def preferredCIDR_def preferredAddress_find Let_def
      split: sum.splits)

lemma preferredAddress_internal:
  "preferredAddress lib cidr addrs = Inr ip \<Longrightarrow>
   \<exists>i<length addrs. qualifies lib cidr (addrs ! i) \<and> ip = Address (addrs ! i) \<and>
      (\<forall>j<i. \<not> qualifies lib cidr (addrs ! j))"
  by (auto simp: preferredAddress_find find_Some_iff split: option.splits)

lemma GetMachinePreferredIPAddress_Inr:
  assumes "GetMachinePreferredIPAddress lib machine = Inr ip"
  shows "\<exists>i<length (Addresses (Status machine)).
           qualifies lib (preferredCIDR lib machine) (Addresses (Status machine) ! i) \<and>
           ip = Address (Addresses (Status machine) ! i) \<and>
           (\<forall>j<i. \<not> qualifies lib (preferredCIDR lib machine) (Addresses (Status machine) ! j))"
proof (cases "PreferredAPIServerCIDR (Spec_Network (Spec machine)) = []")
  case True
  then show ?thesis using assms preferredAddress_internal [of lib None "Addresses (Status machine)" ip]
    by (simp add: GetMachinePreferredIPAddress_def preferredCIDR_def)
next
  case False
  then obtain c where c: "ParseCIDR lib (PreferredAPIServerCIDR (Spec_Network (Spec machine))) = Inr c"
    using assms by (auto simp: GetMachinePreferredIPAddress_def split: sum.splits)
  then show ?thesis using False assms preferredAddress_internal [of lib "Some c" "Addresses (Status machine)" ip]
    by (simp add: GetMachinePreferredIPAddress_def preferredCIDR_def)
qed

text \<open>
  C10. \<open>GetMachinePreferredIPAddress\<close> returns the parse error when the preferred CIDR is
  not empty and does not parse. Otherwise it returns the address of the first entry of
  \<open>Status.Addresses\<close>, in list order, that qualifies (its type is \<open>NodeInternalIP\<close> and,
  when a CIDR was given, its address lies inside it), and \<open>ErrNoMachineIPAddr\<close> when no
  entry qualifies. Whatever it returns is the address of an entry of type
  \<open>NodeInternalIP\<close> with no qualifying entry before it.
\<close>

theorem GetMachinePreferredIPAddress_first_internal:
  "(PreferredAPIServerCIDR (Spec_Network (Spec machine)) \<noteq> [] \<and>
      isl (ParseCIDR lib (PreferredAPIServerCIDR (Spec_Network (Spec machine))))
    \<longrightarrow> GetMachinePreferredIPAddress lib machine = Inl ErrParsingCIDR) \<and>
   (PreferredAPIServerCIDR (Spec_Network (Spec machine)) = [] \<or>
      \<not> isl (ParseCIDR lib (PreferredAPIServerCIDR (Spec_Network (Spec machine))))
    \<longrightarrow> GetMachinePreferredIPAddress lib machine =
          (case find (qualifies lib (preferredCIDR lib machine)) (Addresses (Status machine)) of
             None \<Rightarrow> Inl ErrNoMachineIPAddr
           | Some a \<Rightarrow> Inr (Address a))) \<and>
   (GetMachinePreferredIPAddress lib machine = Inr ip
    \<longrightarrow> (\<exists>i<length (Addresses (Status machine)).
           Type (Addresses (Status machine) ! i) = NodeInternalIP \<and>
           qualifies lib (preferredCIDR lib machine) (Addresses (Status machine) ! i) \<and>
           ip = Address (Addresses (Status machine) ! i) \<and>
           (\<forall>j<i. \<not> qualifies lib (preferredCIDR lib machine) (Addresses (Status machine) ! j))))"
proof (intro conjI impI)
  assume "PreferredAPIServerCIDR (Spec_Network (Spec machine)) \<noteq> [] \<and>
      isl (ParseCIDR lib (PreferredAPIServerCIDR (Spec_Network (Spec machine))))"
  then show "GetMachinePreferredIPAddress lib machine = Inl ErrParsingCIDR"
    using GetMachinePreferredIPAddress_parse_error [of machine lib] by (auto simp: isl_def)
next
  assume "PreferredAPIServerCIDR (Spec_Network (Spec machine)) = [] \<or>
      \<not> isl (ParseCIDR lib (PreferredAPIServerCIDR (Spec_Network (Spec machine))))"
  then show "GetMachinePreferredIPAddress lib machine =
          (case find (qualifies lib (preferredCIDR lib machine)) (Addresses (Status machine)) of
             None \<Rightarrow> Inl ErrNoMachineIPAddr
           | Some a \<Rightarrow> Inr (Address a))"
    by (rule GetMachinePreferredIPAddress_find)
next
  assume "GetMachinePreferredIPAddress lib machine = Inr ip"
  from GetMachinePreferredIPAddress_Inr [OF this]
  show "\<exists>i<length (Addresses (Status machine)).
           Type (Addresses (Status machine) ! i) = NodeInternalIP \<and>
           qualifies lib (preferredCIDR lib machine) (Addresses (Status machine) ! i) \<and>
           ip = Address (Addresses (Status machine) ! i) \<and>
           (\<forall>j<i. \<not> qualifies lib (preferredCIDR lib machine) (Addresses (Status machine) ! j))"
    by (auto simp: qualifies_def)
qed

lemmas net_defs = example_net_def machine_with_cidr_def example_addresses_def example_machine_def
  NodeInternalIP_def

theorem GetMachinePreferredIPAddress_first_internal_witness:
  "GetMachinePreferredIPAddress example_net (machine_with_cidr ''10.0.0.0/33'') = Inl ErrParsingCIDR \<and>
   GetMachinePreferredIPAddress example_net (machine_with_cidr ''10.0.0.0/8'') = Inr ''10.0.0.7'' \<and>
   GetMachinePreferredIPAddress example_net (machine_with_cidr []) = Inr ''192.168.0.5''"
proof -
  have a: "PreferredAPIServerCIDR (Spec_Network (Spec (machine_with_cidr ''10.0.0.0/33''))) \<noteq> [] \<and>
      isl (ParseCIDR example_net
        (PreferredAPIServerCIDR (Spec_Network (Spec (machine_with_cidr ''10.0.0.0/33'')))))"
    by (simp add: net_defs)
  have b: "\<not> isl (ParseCIDR example_net
        (PreferredAPIServerCIDR (Spec_Network (Spec (machine_with_cidr ''10.0.0.0/8'')))))"
    by (simp add: net_defs)
  have c: "PreferredAPIServerCIDR (Spec_Network (Spec (machine_with_cidr []))) = []"
    by (simp add: net_defs)
  have fb: "(case find (qualifies example_net (preferredCIDR example_net (machine_with_cidr ''10.0.0.0/8'')))
               (Addresses (Status (machine_with_cidr ''10.0.0.0/8''))) of
             None \<Rightarrow> Inl ErrNoMachineIPAddr | Some a \<Rightarrow> Inr (Address a)) = Inr ''10.0.0.7''"
    by (simp add: net_defs qualifies_def preferredCIDR_def)
  have fc: "(case find (qualifies example_net (preferredCIDR example_net (machine_with_cidr [])))
               (Addresses (Status (machine_with_cidr []))) of
             None \<Rightarrow> Inl ErrNoMachineIPAddr | Some a \<Rightarrow> Inr (Address a)) = Inr ''192.168.0.5''"
    by (simp add: net_defs qualifies_def preferredCIDR_def)
  show ?thesis
    using GetMachinePreferredIPAddress_first_internal [of "machine_with_cidr ''10.0.0.0/33''" example_net]
      GetMachinePreferredIPAddress_first_internal [of "machine_with_cidr ''10.0.0.0/8''" example_net]
      GetMachinePreferredIPAddress_first_internal [of "machine_with_cidr []" example_net]
      a b c fb fc
    by metis
qed


section \<open>Properties of the machine controller\<close>

lemma Contains_iff: "Contains list s = (s \<in> set list)"
  by (induction list) auto

lemma Filter_eq: "Filter list s = filter (\<lambda>item. item \<noteq> s) list"
  by (induction list) auto

lemmas setters = set_TaskRef_def set_Status_Network_def set_Addresses_def set_Ready_def
  set_ProviderID_def set_Finalizers_def

lemma ensureFinalizer_frame:
  "Cluster (ensureFinalizer ctx) = Cluster ctx"
  "Machine (ensureFinalizer ctx) = Machine ctx"
  "Spec (VSphereMachine (ensureFinalizer ctx)) = Spec (VSphereMachine ctx)"
  "Status (VSphereMachine (ensureFinalizer ctx)) = Status (VSphereMachine ctx)"
  by (simp_all add: ensureFinalizer_def setters)

lemma ensureFinalizer_present:
  "Contains (Finalizers (VSphereMachine ctx)) MachineFinalizer \<Longrightarrow> ensureFinalizer ctx = ctx"
  by (simp add: ensureFinalizer_def)

lemma reconcileNetwork_mismatch:
  assumes "length (Devices (Spec_Network (Spec (VSphereMachine ctx)))) \<noteq> length (Network vm)"
  shows "reconcileNetwork ctx vm =
           ((False, Some (InvalidNetworkCount
               (length (Devices (Spec_Network (Spec (VSphereMachine ctx))))) (length (Network vm)))), ctx)"
  using assms by (simp add: reconcileNetwork_def)

lemma reconcileNetwork_no_addresses:
  assumes "length (Devices (Spec_Network (Spec (VSphereMachine ctx)))) = length (Network vm)"
    and "concat (map IPAddrs (Network vm)) = []"
  shows "reconcileNetwork ctx vm = ((False, None), set_Status_Network (Network vm) ctx)"
  using assms by (simp add: reconcileNetwork_def setters Let_def)

lemma reconcileNormal_error_state:
  assumes "ErrorReason (Status (VSphereMachine ctx)) \<noteq> None \<or>
           ErrorMessage (Status (VSphereMachine ctx)) \<noteq> None"
  shows "reconcileNormal svc ctx = (None, ctx)"
  using assms by (auto simp: reconcileNormal_def)

lemma reconcileNormal_network_step:
  assumes "ErrorReason (Status (VSphereMachine ctx)) = None"
    and "ErrorMessage (Status (VSphereMachine ctx)) = None"
    and "Status_InfrastructureReady (Cluster ctx)"
    and "Spec_Bootstrap_Data (Machine ctx) \<noteq> None"
    and "ReconcileVM svc (ensureFinalizer ctx) = (Inr vm, ctx2)"
    and "State vm = VirtualMachineStateReady"
    and "reconcileNetwork ctx2 vm = ((False, err), ctx3)"
  shows "reconcileNormal svc ctx = (err, ctx3)"
  using assms by (auto simp: reconcileNormal_def ensureFinalizer_frame Let_def split: option.splits)

text \<open>
  C5. The normal path has reached the network step: no error state, cluster
  infrastructure ready, bootstrap data present, and \<open>ReconcileVM\<close> has returned a ready
  instance view. If the number of network devices in Spec differs from the number of
  interfaces of the view, \<open>reconcileNetwork\<close> returns the invalid-network-count error and
  changes nothing, \<open>reconcileNormal\<close> returns that error, and \<open>Status.Ready\<close> is not
  written: it is what it was when \<open>ReconcileVM\<close> returned.
\<close>

theorem reconcileNormal_network_count_mismatch:
  assumes "ErrorReason (Status (VSphereMachine ctx)) = None"
    and "ErrorMessage (Status (VSphereMachine ctx)) = None"
    and "Status_InfrastructureReady (Cluster ctx)"
    and "Spec_Bootstrap_Data (Machine ctx) \<noteq> None"
    and "ReconcileVM svc (ensureFinalizer ctx) = (Inr vm, ctx2)"
    and "State vm = VirtualMachineStateReady"
    and "length (Devices (Spec_Network (Spec (VSphereMachine ctx2)))) \<noteq> length (Network vm)"
  shows "reconcileNetwork ctx2 vm =
           ((False, Some (InvalidNetworkCount
               (length (Devices (Spec_Network (Spec (VSphereMachine ctx2))))) (length (Network vm)))), ctx2) \<and>
         reconcileNormal svc ctx =
           (Some (InvalidNetworkCount
               (length (Devices (Spec_Network (Spec (VSphereMachine ctx2))))) (length (Network vm))), ctx2) \<and>
         Ready (Status (VSphereMachine (snd (reconcileNormal svc ctx)))) =
           Ready (Status (VSphereMachine ctx2))"
proof -
  note net = reconcileNetwork_mismatch [OF assms(7)]
  have "reconcileNormal svc ctx =
           (Some (InvalidNetworkCount
               (length (Devices (Spec_Network (Spec (VSphereMachine ctx2))))) (length (Network vm))), ctx2)"
    by (rule reconcileNormal_network_step [OF assms(1-6) net])
  with net show ?thesis by simp
qed

text \<open>
  C6. \<open>DestroyVM\<close> has returned an instance view. \<open>reconcileDelete\<close> returns no error.
  If the view's state is not-found, every occurrence of the lifecycle finalizer is
  removed from the finalizer list and nothing else changes; for any other state the
  context, and with it the finalizer list, is exactly as \<open>DestroyVM\<close> left it.
\<close>

theorem reconcileDelete_finalizer:
  assumes "DestroyVM svc ctx = (Inr vm, ctx1)"
  shows "fst (reconcileDelete svc ctx) = None \<and>
         (State vm = VirtualMachineStateNotFound \<longrightarrow>
            snd (reconcileDelete svc ctx) =
              set_Finalizers (filter (\<lambda>f. f \<noteq> MachineFinalizer) (Finalizers (VSphereMachine ctx1))) ctx1 \<and>
            MachineFinalizer \<notin> set (Finalizers (VSphereMachine (snd (reconcileDelete svc ctx))))) \<and>
         (State vm \<noteq> VirtualMachineStateNotFound \<longrightarrow>
            snd (reconcileDelete svc ctx) = ctx1 \<and>
            Finalizers (VSphereMachine (snd (reconcileDelete svc ctx))) =
              Finalizers (VSphereMachine ctx1))"
  using assms by (auto simp: reconcileDelete_def Filter_eq setters)

text \<open>
  C7. The resource has no error reason, carries the lifecycle finalizer, the cluster
  infrastructure is ready and bootstrap data is present; \<open>ReconcileVM\<close> returns a ready
  view with as many interfaces as Spec has devices and no IP address, and has itself left
  the finalizers, the provider id and the ready flag alone. Then \<open>reconcileNormal\<close>
  returns no error, \<open>Status.Ready\<close> stays false, and the finalizer list and the provider
  id are unchanged. The only write of the controller is the copy of the view's
  interfaces into \<open>Status.Network\<close> (and none at all when an error message is set).
\<close>

theorem reconcileNormal_waits_for_addresses:
  assumes "ErrorReason (Status (VSphereMachine ctx)) = None"
    and "Contains (Finalizers (VSphereMachine ctx)) MachineFinalizer"
    and "Status_InfrastructureReady (Cluster ctx)"
    and "Spec_Bootstrap_Data (Machine ctx) \<noteq> None"
    and "ReconcileVM svc ctx = (Inr vm, ctx2)"
    and "State vm = VirtualMachineStateReady"
    and "length (Devices (Spec_Network (Spec (VSphereMachine ctx2)))) = length (Network vm)"
    and "concat (map IPAddrs (Network vm)) = []"
    and "Finalizers (VSphereMachine ctx2) = Finalizers (VSphereMachine ctx)"
    and "ProviderID (Spec (VSphereMachine ctx2)) = ProviderID (Spec (VSphereMachine ctx))"
    and "Ready (Status (VSphereMachine ctx2)) = Ready (Status (VSphereMachine ctx))"
    and "\<not> Ready (Status (VSphereMachine ctx))"
  shows "fst (reconcileNormal svc ctx) = None \<and>
         \<not> Ready (Status (VSphereMachine (snd (reconcileNormal svc ctx)))) \<and>
         Finalizers (VSphereMachine (snd (reconcileNormal svc ctx))) =
           Finalizers (VSphereMachine ctx) \<and>
         ProviderID (Spec (VSphereMachine (snd (reconcileNormal svc ctx)))) =
           ProviderID (Spec (VSphereMachine ctx)) \<and>
         snd (reconcileNormal svc ctx) =
           (if ErrorMessage (Status (VSphereMachine ctx)) = None
            then set_Status_Network (Network vm) ctx2 else ctx)"
proof (cases "ErrorMessage (Status (VSphereMachine ctx)) = None")
  case True
  have svc: "ReconcileVM svc (ensureFinalizer ctx) = (Inr vm, ctx2)"
    using assms(2,5) by (simp add: ensureFinalizer_present)
  have "reconcileNormal svc ctx = (None, set_Status_Network (Network vm) ctx2)"
    by (rule reconcileNormal_network_step [OF assms(1) True assms(3,4) svc assms(6)
          reconcileNetwork_no_addresses [OF assms(7,8)]])
  then show ?thesis using True assms(9-12) by (simp add: setters)
next
  case False
  then have "reconcileNormal svc ctx = (None, ctx)"
    by (simp add: reconcileNormal_error_state)
  then show ?thesis using False assms(12) by auto
qed

lemma reconcileNetwork_Spec:
  "Spec (VSphereMachine (snd (reconcileNetwork ctx vm))) = Spec (VSphereMachine ctx)"
  by (simp add: reconcileNetwork_def setters Let_def)

lemma reconcileProviderID_cases:
  "reconcileProviderID ctx vm =
     (if ConvertUUIDToProviderID (BiosUUID vm) = [] then (Some (InvalidBiosUUID (BiosUUID vm)), ctx)
      else if ProviderID (Spec (VSphereMachine ctx)) = Some (ConvertUUIDToProviderID (BiosUUID vm))
      then (None, ctx)
      else (None, set_ProviderID (Some (ConvertUUIDToProviderID (BiosUUID vm))) ctx))"
  by (auto simp: reconcileProviderID_def Let_def split: option.splits)

lemma reconcileProviderID_frame:
  "Status (VSphereMachine (snd (reconcileProviderID ctx vm))) = Status (VSphereMachine ctx)"
  "Finalizers (VSphereMachine (snd (reconcileProviderID ctx vm))) = Finalizers (VSphereMachine ctx)"
  "specBesidesProviderID (snd (reconcileProviderID ctx vm)) = specBesidesProviderID ctx"
  by (simp_all add: reconcileProviderID_cases setters specBesidesProviderID_def)

lemma reconcileDelete_Spec:
  "Spec (VSphereMachine (snd (reconcileDelete svc ctx))) =
   Spec (VSphereMachine (snd (DestroyVM svc ctx)))"
  by (simp add: reconcileDelete_def setters split: prod.splits sum.splits)

lemma specBesides_set_Ready [simp]:
  "specBesidesProviderID (set_Ready b ctx) = specBesidesProviderID ctx"
  by (simp add: specBesidesProviderID_def setters)

lemma reconcileNormal_waiting:
  assumes "ErrorReason (Status (VSphereMachine ctx)) = None"
    and "ErrorMessage (Status (VSphereMachine ctx)) = None"
    and "\<not> Status_InfrastructureReady (Cluster ctx) \<or> Spec_Bootstrap_Data (Machine ctx) = None"
  shows "reconcileNormal svc ctx = (None, ensureFinalizer ctx)"
  using assms by (auto simp: reconcileNormal_def ensureFinalizer_frame Let_def)

lemma reconcileNormal_vm_error:
  assumes "ErrorReason (Status (VSphereMachine ctx)) = None"
    and "ErrorMessage (Status (VSphereMachine ctx)) = None"
    and "Status_InfrastructureReady (Cluster ctx)"
    and "Spec_Bootstrap_Data (Machine ctx) \<noteq> None"
    and "ReconcileVM svc (ensureFinalizer ctx) = (Inl err, ctx2)"
  shows "reconcileNormal svc ctx = (Some (Wrapf err ''failed to reconcile VM''), ctx2)"
  using assms by (auto simp: reconcileNormal_def ensureFinalizer_frame Let_def)

lemma reconcileNormal_vm_not_ready:
  assumes "ErrorReason (Status (VSphereMachine ctx)) = None"
    and "ErrorMessage (Status (VSphereMachine ctx)) = None"
    and "Status_InfrastructureReady (Cluster ctx)"
    and "Spec_Bootstrap_Data (Machine ctx) \<noteq> None"
    and "ReconcileVM svc (ensureFinalizer ctx) = (Inr vm, ctx2)"
    and "State vm \<noteq> VirtualMachineStateReady"
  shows "reconcileNormal svc ctx = (None, ctx2)"
  using assms by (auto simp: reconcileNormal_def ensureFinalizer_frame Let_def)

lemma reconcileNormal_provider_id_step:
  assumes "ErrorReason (Status (VSphereMachine ctx)) = None"
    and "ErrorMessage (Status (VSphereMachine ctx)) = None"
    and "Status_InfrastructureReady (Cluster ctx)"
    and "Spec_Bootstrap_Data (Machine ctx) \<noteq> None"
    and "ReconcileVM svc (ensureFinalizer ctx) = (Inr vm, ctx2)"
    and "State vm = VirtualMachineStateReady"
    and "reconcileNetwork ctx2 vm = ((True, err), ctx3)"
    and "reconcileProviderID ctx3 vm = (perr, ctx4)"
  shows "reconcileNormal svc ctx =
           (case perr of Some e \<Rightarrow> (Some e, ctx4) | None \<Rightarrow> (None, set_Ready True ctx4))"
  using assms by (auto simp: reconcileNormal_def ensureFinalizer_frame Let_def split: option.splits)


lemma reconcileNormal_Spec:
  "specBesidesProviderID (snd (reconcileNormal svc ctx)) = specBesidesProviderID ctx \<or>
   specBesidesProviderID (snd (reconcileNormal svc ctx)) =
     specBesidesProviderID (snd (ReconcileVM svc (ensureFinalizer ctx)))"
proof (cases "ErrorReason (Status (VSphereMachine ctx)) = None \<and>
              ErrorMessage (Status (VSphereMachine ctx)) = None")
  case False
  then have "reconcileNormal svc ctx = (None, ctx)"
    by (intro reconcileNormal_error_state) auto
  then show ?thesis by simp
next
  case ok: True
  show ?thesis
  proof (cases "Status_InfrastructureReady (Cluster ctx) \<and> Spec_Bootstrap_Data (Machine ctx) \<noteq> None")
    case False
    then have "reconcileNormal svc ctx = (None, ensureFinalizer ctx)"
      using ok by (intro reconcileNormal_waiting) auto
    then show ?thesis by (simp add: specBesidesProviderID_def ensureFinalizer_frame)
  next
    case ready: True
    obtain r ctx2 where svc: "ReconcileVM svc (ensureFinalizer ctx) = (r, ctx2)"
      by (cases "ReconcileVM svc (ensureFinalizer ctx)")
    show ?thesis
    proof (cases r)
      case (Inl err)
      with svc ok ready have "reconcileNormal svc ctx = (Some (Wrapf err ''failed to reconcile VM''), ctx2)"
        by (intro reconcileNormal_vm_error) simp_all
      then show ?thesis using svc by simp
    next
      case (Inr vm)
      show ?thesis
      proof (cases "State vm = VirtualMachineStateReady")
        case False
        with svc Inr ok ready have "reconcileNormal svc ctx = (None, ctx2)"
          by (intro reconcileNormal_vm_not_ready [where vm = vm]) simp_all
        then show ?thesis using svc by simp
      next
        case vmready: True
        obtain b err ctx3 where net: "reconcileNetwork ctx2 vm = ((b, err), ctx3)"
          by (cases "reconcileNetwork ctx2 vm") auto
        have n: "specBesidesProviderID ctx3 = specBesidesProviderID ctx2"
          using reconcileNetwork_Spec [of ctx2 vm] net by (simp add: specBesidesProviderID_def)
        show ?thesis
        proof (cases b)
          case False
          with svc Inr ok ready vmready net have "reconcileNormal svc ctx = (err, ctx3)"
            by (intro reconcileNormal_network_step [where vm = vm and ?ctx2.0 = ctx2]) simp_all
          then show ?thesis using svc n by simp
        next
          case True
          obtain perr ctx4 where pid: "reconcileProviderID ctx3 vm = (perr, ctx4)"
            by (cases "reconcileProviderID ctx3 vm")
          have p: "specBesidesProviderID ctx4 = specBesidesProviderID ctx3"
            using reconcileProviderID_frame(3) [of ctx3 vm] pid by simp
          from True svc Inr ok ready vmready net pid
          have "reconcileNormal svc ctx =
                  (case perr of Some e \<Rightarrow> (Some e, ctx4) | None \<Rightarrow> (None, set_Ready True ctx4))"
            by (intro reconcileNormal_provider_id_step
                  [where vm = vm and ?ctx2.0 = ctx2 and ?ctx3.0 = ctx3 and err = err]) simp_all
          then show ?thesis using svc n p by (cases perr) simp_all
        qed
      qed
    qed
  qed
qed

text \<open>
  C1 (amended). The controller's own steps write no Spec field but the provider id:
  when the VM service leaves Spec alone, \<open>reconcileDelete\<close> leaves Spec as it was and
  \<open>reconcileNormal\<close> leaves every Spec field other than \<open>Spec.ProviderID\<close> as it was. The
  provider-id step, when the provider id encoded from the BIOS UUID is valid and
  \<open>Spec.ProviderID\<close> is unset or different, sets \<open>Spec.ProviderID\<close> to it; it never
  changes Status or another Spec field.
\<close>

theorem reconcile_writes_only_provider_id:
  assumes "\<And>c. Spec (VSphereMachine (snd (ReconcileVM svc c))) = Spec (VSphereMachine c)"
    and "\<And>c. Spec (VSphereMachine (snd (DestroyVM svc c))) = Spec (VSphereMachine c)"
  shows "Spec (VSphereMachine (snd (reconcileDelete svc ctx))) = Spec (VSphereMachine ctx) \<and>
         specBesidesProviderID (snd (reconcileNormal svc ctx)) = specBesidesProviderID ctx \<and>
         (ConvertUUIDToProviderID (BiosUUID vm) \<noteq> [] \<and>
          ProviderID (Spec (VSphereMachine ctx)) \<noteq> Some (ConvertUUIDToProviderID (BiosUUID vm))
          \<longrightarrow> reconcileProviderID ctx vm =
                (None, set_ProviderID (Some (ConvertUUIDToProviderID (BiosUUID vm))) ctx)) \<and>
         ProviderID (Spec (VSphereMachine (set_ProviderID p ctx))) = p \<and>
         Status (VSphereMachine (snd (reconcileProviderID ctx vm))) = Status (VSphereMachine ctx) \<and>
         specBesidesProviderID (snd (reconcileProviderID ctx vm)) = specBesidesProviderID ctx"
proof -
  have d: "Spec (VSphereMachine (snd (reconcileDelete svc ctx))) = Spec (VSphereMachine ctx)"
    by (simp add: reconcileDelete_Spec assms(2))
  have "specBesidesProviderID (snd (ReconcileVM svc (ensureFinalizer ctx))) = specBesidesProviderID ctx"
    using assms(1) [of "ensureFinalizer ctx"] by (simp add: specBesidesProviderID_def ensureFinalizer_frame)
  then have n: "specBesidesProviderID (snd (reconcileNormal svc ctx)) = specBesidesProviderID ctx"
    using reconcileNormal_Spec [of svc ctx] by auto
  have c: "ConvertUUIDToProviderID (BiosUUID vm) \<noteq> [] \<and>
          ProviderID (Spec (VSphereMachine ctx)) \<noteq> Some (ConvertUUIDToProviderID (BiosUUID vm))
          \<longrightarrow> reconcileProviderID ctx vm =
                (None, set_ProviderID (Some (ConvertUUIDToProviderID (BiosUUID vm))) ctx)"
    by (simp add: reconcileProviderID_cases)
  have s: "ProviderID (Spec (VSphereMachine (set_ProviderID p ctx))) = p"
    by (simp add: set_ProviderID_def)
  show ?thesis
    by (intro conjI d n c s reconcileProviderID_frame(1) reconcileProviderID_frame(3))
qed

lemmas ctl_defs = example_ctx_def example_machine_def example_device_def example_vm_def nic_def
  service_returning_def

lemma example_providerID:
  "ConvertUUIDToProviderID example_uuid = ''vsphere://4210A0b1-c2d3-e4f5-a6b7-0123456789ab''"
  by (simp add: ConvertUUIDToProviderID_eq example_uuid_def isUUID_example ProviderIDPrefix_def)

lemma example_finalizer: "ensureFinalizer example_ctx = example_ctx"
  by (simp add: ensureFinalizer_def example_ctx_def example_machine_def)

text \<open>
  C1 as stated fails: the provider-id step writes Spec, not Status. For a resource
  without a provider id and an instance with a valid BIOS UUID, Spec after the step
  differs from Spec before it, and Status is the same.
\<close>

theorem reconcileProviderID_mutates_spec:
  "Spec (VSphereMachine (snd (reconcileProviderID example_ctx (example_vm VirtualMachineStateReady []))))
     \<noteq> Spec (VSphereMachine example_ctx) \<and>
   Status (VSphereMachine (snd (reconcileProviderID example_ctx (example_vm VirtualMachineStateReady []))))
     = Status (VSphereMachine example_ctx)"
proof -
  have b: "BiosUUID (example_vm VirtualMachineStateReady []) = example_uuid"
    by (simp add: example_vm_def)
  have p: "ProviderID (Spec (VSphereMachine example_ctx)) = None"
    by (simp add: example_ctx_def example_machine_def)
  have "ProviderID (Spec (VSphereMachine (snd (reconcileProviderID example_ctx
            (example_vm VirtualMachineStateReady [])))))
          = Some ''vsphere://4210A0b1-c2d3-e4f5-a6b7-0123456789ab''"
    by (simp add: reconcileProviderID_cases b p example_providerID set_ProviderID_def)
  with p have "ProviderID (Spec (VSphereMachine (snd (reconcileProviderID example_ctx
            (example_vm VirtualMachineStateReady []))))) \<noteq> ProviderID (Spec (VSphereMachine example_ctx))"
    by simp
  then have "Spec (VSphereMachine (snd (reconcileProviderID example_ctx
            (example_vm VirtualMachineStateReady [])))) \<noteq> Spec (VSphereMachine example_ctx)"
    by (rule contrapos_nn) (erule arg_cong)
  then show ?thesis by (simp add: reconcileProviderID_frame)
qed

theorem reconcile_writes_only_provider_id_witness:
  "Spec (VSphereMachine (snd (reconcileDelete
      (service_returning (example_vm VirtualMachineStateReady [])) example_ctx))) =
     Spec (VSphereMachine example_ctx) \<and>
   specBesidesProviderID (snd (reconcileNormal
      (service_returning (example_vm VirtualMachineStateReady [])) example_ctx)) =
     specBesidesProviderID example_ctx \<and>
   reconcileProviderID example_ctx (example_vm VirtualMachineStateReady []) =
     (None, set_ProviderID (Some ''vsphere://4210A0b1-c2d3-e4f5-a6b7-0123456789ab'') example_ctx)"
proof -
  have h1: "\<And>c. Spec (VSphereMachine (snd (ReconcileVM
              (service_returning (example_vm VirtualMachineStateReady [])) c))) = Spec (VSphereMachine c)"
    by (simp add: service_returning_def set_TaskRef_def)
  have h2: "\<And>c. Spec (VSphereMachine (snd (DestroyVM
              (service_returning (example_vm VirtualMachineStateReady [])) c))) = Spec (VSphereMachine c)"
    by (simp add: service_returning_def set_TaskRef_def)
  have b: "BiosUUID (example_vm VirtualMachineStateReady []) = example_uuid"
    by (simp add: example_vm_def)
  have p: "ProviderID (Spec (VSphereMachine example_ctx)) = None"
    by (simp add: example_ctx_def example_machine_def)
  show ?thesis
    using reconcile_writes_only_provider_id [OF h1 h2, of example_ctx
        "example_vm VirtualMachineStateReady []"]
    by (simp add: b p example_providerID)
qed

theorem reconcileNormal_network_count_mismatch_witness:
  "reconcileNormal (service_returning (example_vm VirtualMachineStateReady [nic []])) example_ctx =
     (Some (InvalidNetworkCount 2 1), set_TaskRef [] example_ctx) \<and>
   \<not> Ready (Status (VSphereMachine (snd (reconcileNormal
       (service_returning (example_vm VirtualMachineStateReady [nic []])) example_ctx))))"
proof -
  have h1: "ErrorReason (Status (VSphereMachine example_ctx)) = None"
    and h2: "ErrorMessage (Status (VSphereMachine example_ctx)) = None"
    and h3: "Status_InfrastructureReady (Cluster example_ctx)"
    and h4: "Spec_Bootstrap_Data (Machine example_ctx) \<noteq> None"
    by (simp_all add: example_ctx_def example_machine_def)
  have h5: "ReconcileVM (service_returning (example_vm VirtualMachineStateReady [nic []]))
              (ensureFinalizer example_ctx) =
            (Inr (example_vm VirtualMachineStateReady [nic []]), set_TaskRef [] example_ctx)"
    by (simp add: example_finalizer service_returning_def)
  have h6: "State (example_vm VirtualMachineStateReady [nic []]) = VirtualMachineStateReady"
    by (simp add: example_vm_def)
  have l: "length (Devices (Spec_Network (Spec (VSphereMachine (set_TaskRef [] example_ctx))))) = 2"
    "length (Network (example_vm VirtualMachineStateReady [nic []])) = 1"
    "\<not> Ready (Status (VSphereMachine (set_TaskRef [] example_ctx)))"
    by (simp_all add: ctl_defs set_TaskRef_def)
  have h7: "length (Devices (Spec_Network (Spec (VSphereMachine (set_TaskRef [] example_ctx))))) \<noteq>
            length (Network (example_vm VirtualMachineStateReady [nic []]))"
    by (simp add: l)
  show ?thesis
    using reconcileNormal_network_count_mismatch [OF h1 h2 h3 h4 h5 h6 h7]
    by (simp add: l)
qed

theorem reconcileDelete_finalizer_witness:
  "fst (reconcileDelete (service_returning (example_vm VirtualMachineStateNotFound [])) example_ctx) = None \<and>
   Finalizers (VSphereMachine (snd (reconcileDelete
     (service_returning (example_vm VirtualMachineStateNotFound [])) example_ctx))) = [] \<and>
   fst (reconcileDelete (service_returning (example_vm VirtualMachineStatePending [])) example_ctx) = None \<and>
   Finalizers (VSphereMachine (snd (reconcileDelete
     (service_returning (example_vm VirtualMachineStatePending [])) example_ctx))) = [MachineFinalizer]"
proof -
  have d: "\<And>vm. DestroyVM (service_returning vm) example_ctx = (Inr vm, set_TaskRef [] example_ctx)"
    by (simp add: service_returning_def)
  have s: "State (example_vm VirtualMachineStateNotFound []) = VirtualMachineStateNotFound"
    "State (example_vm VirtualMachineStatePending []) \<noteq> VirtualMachineStateNotFound"
    by (simp_all add: example_vm_def)
  have f: "Finalizers (VSphereMachine (set_TaskRef [] example_ctx)) = [MachineFinalizer]"
    by (simp add: example_ctx_def example_machine_def set_TaskRef_def)
  show ?thesis
    using reconcileDelete_finalizer [OF d [of "example_vm VirtualMachineStateNotFound []"]]
      reconcileDelete_finalizer [OF d [of "example_vm VirtualMachineStatePending []"]]
    by (simp add: s f set_Finalizers_def)
qed

theorem reconcileNormal_waits_for_addresses_witness:
  "reconcileNormal (service_returning (example_vm VirtualMachineStateReady [nic [], nic []])) example_ctx =
     (None, set_Status_Network [nic [], nic []] (set_TaskRef [] example_ctx)) \<and>
   \<not> Ready (Status (VSphereMachine (snd (reconcileNormal
     (service_returning (example_vm VirtualMachineStateReady [nic [], nic []])) example_ctx)))) \<and>
   Finalizers (VSphereMachine (snd (reconcileNormal
     (service_returning (example_vm VirtualMachineStateReady [nic [], nic []])) example_ctx))) =
     [MachineFinalizer] \<and>
   ProviderID (Spec (VSphereMachine (snd (reconcileNormal
     (service_returning (example_vm VirtualMachineStateReady [nic [], nic []])) example_ctx)))) = None"
proof -
  have h1: "ErrorReason (Status (VSphereMachine example_ctx)) = None"
    and h2: "Contains (Finalizers (VSphereMachine example_ctx)) MachineFinalizer"
    and h3: "Status_InfrastructureReady (Cluster example_ctx)"
    and h4: "Spec_Bootstrap_Data (Machine example_ctx) \<noteq> None"
    and h12: "\<not> Ready (Status (VSphereMachine example_ctx))"
    and m: "ErrorMessage (Status (VSphereMachine example_ctx)) = None"
    and v: "Finalizers (VSphereMachine example_ctx) = [MachineFinalizer]"
      "ProviderID (Spec (VSphereMachine example_ctx)) = None"
    by (simp_all add: example_ctx_def example_machine_def)
  have h5: "ReconcileVM (service_returning (example_vm VirtualMachineStateReady [nic [], nic []]))
              example_ctx =
            (Inr (example_vm VirtualMachineStateReady [nic [], nic []]), set_TaskRef [] example_ctx)"
    by (simp add: service_returning_def)
  have h6: "State (example_vm VirtualMachineStateReady [nic [], nic []]) = VirtualMachineStateReady"
    and n: "Network (example_vm VirtualMachineStateReady [nic [], nic []]) = [nic [], nic []]"
    by (simp_all add: example_vm_def)
  have h7: "length (Devices (Spec_Network (Spec (VSphereMachine (set_TaskRef [] example_ctx))))) =
            length (Network (example_vm VirtualMachineStateReady [nic [], nic []]))"
    by (simp add: ctl_defs set_TaskRef_def)
  have h8: "concat (map IPAddrs (Network (example_vm VirtualMachineStateReady [nic [], nic []]))) = []"
    by (simp add: example_vm_def nic_def)
  have h9: "Finalizers (VSphereMachine (set_TaskRef [] example_ctx)) =
            Finalizers (VSphereMachine example_ctx)"
    and h10: "ProviderID (Spec (VSphereMachine (set_TaskRef [] example_ctx))) =
            ProviderID (Spec (VSphereMachine example_ctx))"
    and h11: "Ready (Status (VSphereMachine (set_TaskRef [] example_ctx))) =
            Ready (Status (VSphereMachine example_ctx))"
    by (simp_all add: set_TaskRef_def)
  note t = reconcileNormal_waits_for_addresses [OF h1 h2 h3 h4 h5 h6 h7 h8 h9 h10 h11 h12]
  from t have f: "fst (reconcileNormal (service_returning
      (example_vm VirtualMachineStateReady [nic [], nic []])) example_ctx) = None"
    by (rule conjunct1)
  from t have s: "snd (reconcileNormal (service_returning
      (example_vm VirtualMachineStateReady [nic [], nic []])) example_ctx) =
      set_Status_Network [nic [], nic []] (set_TaskRef [] example_ctx)"
    by (simp add: m n)
  have r: "reconcileNormal (service_returning
      (example_vm VirtualMachineStateReady [nic [], nic []])) example_ctx =
     (None, set_Status_Network [nic [], nic []] (set_TaskRef [] example_ctx))"
    using f s by (simp add: prod_eq_iff)
  show ?thesis unfolding r
    by (simp add: set_Status_Network_def set_TaskRef_def example_ctx_def example_machine_def)
qed

end
